theory Spec2Isabelle
  imports Complex_Main
begin

section \<open>Type declarations (types.ts)\<close>

text \<open>
  Object literals whose static type is \<open>Record<string, unknown>\<close> (the \<open>inputSchema\<close> of
  a tool definition) are modelled as JSON values. An object is an association list, so the
  order in which the source writes the keys is kept. Strings are byte strings: a character
  of the source outside ASCII appears as its UTF-8 bytes. An optional field \<open>f?: T\<close> is a
  field of type \<open>T option\<close>, and so is \<open>T | null\<close>. A \<open>number\<close> that the code of this
  development only stores and passes on is an \<open>int\<close>.
\<close>

datatype json =
    JNull
  | JBool bool
  | JNumber int
  | JString string
  | JArray "json list"
  | JObject "(string \<times> json) list"

subsection \<open>Standard response envelope\<close>

record ResponseMeta =
  status :: int
  requestId :: "string option"

text \<open>The \<open>error\<close> member of the envelope: \<open>{ type; message; detail? }\<close>.\<close>

record ErrorInfo =
  type :: string
  message :: string
  detail :: "string option"

record 'd OneclawResponse =
  data :: "'d option"
  error :: "ErrorInfo option"
  meta :: "ResponseMeta option"

subsection \<open>Agents\<close>

record CreateAgentRequest =
  name :: string
  description :: "string option"
  auth_method :: "string option"
  scopes :: "string list option"
  expires_at :: "string option"

record UpdateAgentRequest =
  name :: "string option"
  scopes :: "string list option"
  is_active :: "bool option"
  expires_at :: "string option option"

subsection \<open>Sharing\<close>

record CreateShareRequest =
  recipient_type :: string
  recipient_id :: "string option"
  permissions :: "string list option"
  max_access_count :: "int option"
  expires_at :: string
  passphrase :: "string option"
  ip_allowlist :: "string list option"

subsection \<open>x402 payment protocol\<close>

record PaymentAccept =
  scheme :: string
  network :: string
  payTo :: string
  price :: string
  requiredDeadlineSeconds :: int

record PaymentRequirement =
  x402Version :: int
  accepts :: "PaymentAccept list"
  description :: string

record PaymentPayload =
  x402Version :: int
  scheme :: string
  network :: string
  payload :: string

text \<open>
  The wallet signer: \<open>signPayment(requirement: PaymentAccept): Promise<string>\<close>.
  A promise that rejects (the wallet refuses, or times out) is \<open>None\<close>.
\<close>

record X402Signer =
  getAddress :: "string option"
  signPayment :: "PaymentAccept \<Rightarrow> string option"

subsection \<open>MCP tool definitions\<close>

record McpToolDefinition =
  name :: string
  description :: string
  inputSchema :: json

section \<open>The HTTP client seen by the resource proxies\<close>

text \<open>
  \<open>AgentsResource\<close> and \<open>SharingResource\<close> hold an \<open>HttpClient\<close> and call its
  \<open>request(method, path, options?)\<close>. The client is a parameter of the model: a function
  of the three arguments that transforms a state \<open>'s\<close> (whatever the client and the network
  hold) and yields either a raised fault \<open>'e\<close> (a rejected promise) or an envelope. The
  generic result type of \<open>request<T>\<close> is erased at run time and is the type variable
  \<open>'d\<close>.
\<close>

datatype request_body =
    CreateAgentBody CreateAgentRequest
  | UpdateAgentBody UpdateAgentRequest
  | CreateShareBody CreateShareRequest

text \<open>The options object the proxies build: \<open>{ body: ... }\<close>.\<close>

record RequestOptions =
  body :: "request_body option"

type_synonym ('s, 'e, 'd) HttpClient =
  "string \<Rightarrow> string \<Rightarrow> RequestOptions option \<Rightarrow> 's \<Rightarrow> ('e + 'd OneclawResponse) \<times> 's"

subsection \<open>Class AgentsResource\<close>

text \<open>Register a new agent.\<close>

definition AgentsResource_create ::
  "('s, 'e, 'd) HttpClient \<Rightarrow> CreateAgentRequest \<Rightarrow> 's \<Rightarrow> ('e + 'd OneclawResponse) \<times> 's" where
  "AgentsResource_create http options =
     http ''POST'' ''/v1/agents'' (Some \<lparr>body = Some (CreateAgentBody options)\<rparr>)"

text \<open>Fetch a single agent by ID.\<close>

definition AgentsResource_get ::
  "('s, 'e, 'd) HttpClient \<Rightarrow> string \<Rightarrow> 's \<Rightarrow> ('e + 'd OneclawResponse) \<times> 's" where
  "AgentsResource_get http agentId = http ''GET'' (''/v1/agents/'' @ agentId) None"

text \<open>List all agents in the current organization.\<close>

definition AgentsResource_list ::
  "('s, 'e, 'd) HttpClient \<Rightarrow> 's \<Rightarrow> ('e + 'd OneclawResponse) \<times> 's" where
  "AgentsResource_list http = http ''GET'' ''/v1/agents'' None"

text \<open>Update agent name, scopes, active status, or expiry.\<close>

definition AgentsResource_update ::
  "('s, 'e, 'd) HttpClient \<Rightarrow> string \<Rightarrow> UpdateAgentRequest \<Rightarrow> 's
     \<Rightarrow> ('e + 'd OneclawResponse) \<times> 's" where
  "AgentsResource_update http agentId update =
     http ''PATCH'' (''/v1/agents/'' @ agentId) (Some \<lparr>body = Some (UpdateAgentBody update)\<rparr>)"

text \<open>Delete an agent permanently.\<close>

definition AgentsResource_delete ::
  "('s, 'e, 'd) HttpClient \<Rightarrow> string \<Rightarrow> 's \<Rightarrow> ('e + 'd OneclawResponse) \<times> 's" where
  "AgentsResource_delete http agentId = http ''DELETE'' (''/v1/agents/'' @ agentId) None"

text \<open>Rotate an agent's API key.\<close>

definition AgentsResource_rotateKey ::
  "('s, 'e, 'd) HttpClient \<Rightarrow> string \<Rightarrow> 's \<Rightarrow> ('e + 'd OneclawResponse) \<times> 's" where
  "AgentsResource_rotateKey http agentId =
     http ''POST'' (''/v1/agents/'' @ agentId @ ''/rotate-key'') None"

subsection \<open>Class SharingResource\<close>

text \<open>Create a shareable link for a secret.\<close>

definition SharingResource_create ::
  "('s, 'e, 'd) HttpClient \<Rightarrow> string \<Rightarrow> CreateShareRequest \<Rightarrow> 's
     \<Rightarrow> ('e + 'd OneclawResponse) \<times> 's" where
  "SharingResource_create http secretId options =
     http ''POST'' (''/v1/secrets/'' @ secretId @ ''/share'')
       (Some \<lparr>body = Some (CreateShareBody options)\<rparr>)"

text \<open>Access a shared secret using its share ID.\<close>

definition SharingResource_access ::
  "('s, 'e, 'd) HttpClient \<Rightarrow> string \<Rightarrow> 's \<Rightarrow> ('e + 'd OneclawResponse) \<times> 's" where
  "SharingResource_access http shareId = http ''GET'' (''/v1/share/'' @ shareId) None"

text \<open>Revoke an active share link.\<close>

definition SharingResource_revoke ::
  "('s, 'e, 'd) HttpClient \<Rightarrow> string \<Rightarrow> 's \<Rightarrow> ('e + 'd OneclawResponse) \<times> 's" where
  "SharingResource_revoke http shareId = http ''DELETE'' (''/v1/share/'' @ shareId) None"

subsection \<open>Observing the calls a proxy makes\<close>

text \<open>
  A client that behaves as \<open>http\<close> and also appends every call it receives (method,
  path, options) to a log kept beside the state.
\<close>

type_synonym http_call = "string \<times> string \<times> RequestOptions option"

definition recording ::
  "('s, 'e, 'd) HttpClient \<Rightarrow> ('s \<times> http_call list, 'e, 'd) HttpClient" where
  "recording http m p opts =
     (\<lambda>(s, calls). case http m p opts s of (r, s') \<Rightarrow> (r, (s', calls @ [(m, p, opts)])))"

text \<open>
  What a run observes when exactly the one call \<open>c\<close> is made on \<open>http\<close> from state
  \<open>s\<close>, the log holding \<open>calls\<close> before: the result and the new state are those of
  that call, and the log has gained \<open>c\<close> and nothing else.
\<close>

definition outcome_of_single_call ::
  "('s, 'e, 'd) HttpClient \<Rightarrow> http_call \<Rightarrow> 's \<Rightarrow> http_call list
     \<Rightarrow> ('e + 'd OneclawResponse) \<times> 's \<times> http_call list" where
  "outcome_of_single_call http c s calls =
     (case c of (m, p, opts) \<Rightarrow>
        (fst (http m p opts s), snd (http m p opts s), calls @ [c]))"

section \<open>The MCP tool definitions and getMcpToolDefinitions\<close>

text \<open>A property of an input schema: \<open>{ type: ..., description: ... }\<close>.\<close>

definition property :: "string \<Rightarrow> string \<Rightarrow> json" where
  "property ty descr = JObject [(''type'', JString ty), (''description'', JString descr)]"

text \<open>A property that also carries a \<open>default\<close> entry.\<close>

definition property_default :: "string \<Rightarrow> string \<Rightarrow> json \<Rightarrow> json" where
  "property_default ty descr dflt =
     JObject [(''type'', JString ty), (''description'', JString descr), (''default'', dflt)]"

text \<open>An input schema: \<open>{ type: "object", properties: {...}, required: [...] }\<close>.\<close>

definition object_schema :: "(string \<times> json) list \<Rightarrow> string list \<Rightarrow> json" where
  "object_schema props req =
     JObject [(''type'', JString ''object''),
              (''properties'', JObject props),
              (''required'', JArray (map JString req))]"

definition TOOL_GET_SECRET :: McpToolDefinition where
  "TOOL_GET_SECRET = \<lparr>
     name = ''1claw_get_secret'',
     description =
       ''Fetch a decrypted secret from a 1Claw vault. '' @
       ''Returns the secret value if access is granted. '' @
       ''May return a pending_approval status if human approval is required.'',
     inputSchema = object_schema
       [(''vault_id'', property ''string'' ''UUID of the vault containing the secret''),
        (''key'', property ''string'' ''Path/key of the secret within the vault''),
        (''reason'', property ''string'' ''Why the agent needs this secret (logged for audit)'')]
       [''vault_id'', ''key'']\<rparr>"

definition TOOL_SET_SECRET :: McpToolDefinition where
  "TOOL_SET_SECRET = \<lparr>
     name = ''1claw_set_secret'',
     description =
       ''Store or update a secret in a 1Claw vault. '' @
       ''The value is encrypted at rest using HSM-backed keys.'',
     inputSchema = object_schema
       [(''vault_id'', property ''string'' ''UUID of the vault to store the secret in''),
        (''key'', property ''string'' ''Path/key for the secret''),
        (''value'', property ''string'' ''The secret value to encrypt and store''),
        (''type'', property_default ''string''
           ''Type hint (e.g. 'api_key', 'password', 'token', 'generic')''
           (JString ''generic''))]
       [''vault_id'', ''key'', ''value'']\<rparr>"

definition TOOL_LIST_SECRET_KEYS :: McpToolDefinition where
  "TOOL_LIST_SECRET_KEYS = \<lparr>
     name = ''1claw_list_secret_keys'',
     description =
       ''List all secret keys in a vault WITHOUT revealing their values. '' @
       ''Returns metadata only: path, type, version, and timestamps.'',
     inputSchema = object_schema
       [(''vault_id'', property ''string'' ''UUID of the vault to list secrets from''),
        (''prefix'', property ''string'' ''Optional prefix filter for secret paths'')]
       [''vault_id'']\<rparr>"

definition TOOL_DELETE_SECRET :: McpToolDefinition where
  "TOOL_DELETE_SECRET = \<lparr>
     name = ''1claw_delete_secret'',
     description = ''Permanently delete a secret from a 1Claw vault.'',
     inputSchema = object_schema
       [(''vault_id'', property ''string'' ''UUID of the vault containing the secret''),
        (''key'', property ''string'' ''Path/key of the secret to delete'')]
       [''vault_id'', ''key'']\<rparr>"

definition TOOL_LIST_VAULTS :: McpToolDefinition where
  "TOOL_LIST_VAULTS = \<lparr>
     name = ''1claw_list_vaults'',
     description =
       ''List all vaults accessible to the current identity. '' @
       ''Returns vault names, descriptions, and IDs.'',
     inputSchema = object_schema [] []\<rparr>"

definition TOOL_CREATE_VAULT :: McpToolDefinition where
  "TOOL_CREATE_VAULT = \<lparr>
     name = ''1claw_create_vault'',
     description = ''Create a new encrypted vault in 1Claw.'',
     inputSchema = object_schema
       [(''name'', property ''string'' ''Human-readable vault name''),
        (''description'', property ''string'' ''Optional vault description'')]
       [''name'']\<rparr>"

definition TOOL_REQUEST_APPROVAL :: McpToolDefinition where
  "TOOL_REQUEST_APPROVAL = \<lparr>
     name = ''1claw_request_approval'',
     description =
       ''Formally request human approval to access a gated secret. '' @
       ''A notification is sent to the vault owner for review.'',
     inputSchema = object_schema
       [(''vault_id'', property ''string'' ''UUID of the vault containing the secret''),
        (''secret_path'', property ''string'' ''Path of the secret requiring approval''),
        (''reason'', property ''string'' ''Why the agent needs access to this secret'')]
       [''vault_id'', ''secret_path'']\<rparr>"

definition TOOL_CHECK_APPROVAL :: McpToolDefinition where
  "TOOL_CHECK_APPROVAL = \<lparr>
     name = ''1claw_check_approval_status'',
     description =
       ''Check the current status of a human approval request. '' @
       ''Returns 'pending', 'approved', or 'denied'.'',
     inputSchema = object_schema
       [(''request_id'', property ''string'' ''UUID of the approval request to check'')]
       [''request_id'']\<rparr>"

definition TOOL_PAY_AND_FETCH :: McpToolDefinition where
  "TOOL_PAY_AND_FETCH = \<lparr>
     name = ''1claw_pay_and_fetch'',
     description =
       ''Pay the x402 micropayment fee and retrieve a secret. '' @
       ''Use this when the free tier is exhausted and you need '' @
       ''to pay for API access using USDC on Base.'',
     inputSchema = object_schema
       [(''vault_id'', property ''string'' ''UUID of the vault containing the secret''),
        (''key'', property ''string'' ''Path/key of the secret to fetch'')]
       [''vault_id'', ''key'']\<rparr>"

text \<open>
  The second line of this description holds, in the source file, the three characters
  U+00E2, U+20AC, U+201D between "account" and "they"; they are written here as their
  UTF-8 bytes.
\<close>

definition TOOL_SHARE_SECRET :: McpToolDefinition where
  "TOOL_SHARE_SECRET = \<lparr>
     name = ''1claw_share_secret'',
     description =
       ''Share a secret with another person by email. '' @
       (''The recipient does NOT need a 1Claw account '' @
          [CHR 0xC3, CHR 0xA2, CHR 0xE2, CHR 0x82, CHR 0xAC, CHR 0xE2, CHR 0x80, CHR 0x9D] @
          '' they will see '') @
       ''the shared secret when they sign up or log in. '' @
       ''Use this to grant a human access to a credential.'',
     inputSchema = object_schema
       [(''secret_id'', property ''string'' ''UUID of the secret entry to share''),
        (''email'', property ''string'' ''Email address of the recipient''),
        (''expires_at'', property ''string''
           ''ISO-8601 expiry date for the share (e.g. '2025-12-31T00:00:00Z')''),
        (''max_access_count'', property_default ''number''
           ''Maximum number of times the secret can be accessed (default: 5)''
           (JNumber 5))]
       [''secret_id'', ''email'', ''expires_at'']\<rparr>"

text \<open>
  \<open>const ALL_TOOLS: McpToolDefinition[] = [...]\<close> binds the name to one array object.
  The binding is constant, the array is not: it is neither frozen nor copied, so whoever
  holds a reference to it can write to it. The name is therefore a reference, and the
  contents of the array live in a heap. The ten definitions it is initialised with are the
  object literals above, kept as the values they have when the module is evaluated.
\<close>

datatype array_ref = ALL_TOOLS

type_synonym heap = "array_ref \<Rightarrow> McpToolDefinition list"

text \<open>
  All MCP tool definitions for 1Claw: the heap once the module has been evaluated and
  before anything has written to the array.
\<close>

definition module_heap :: heap where
  "module_heap r =
     (case r of
        ALL_TOOLS \<Rightarrow>
          [TOOL_GET_SECRET,
           TOOL_SET_SECRET,
           TOOL_LIST_SECRET_KEYS,
           TOOL_DELETE_SECRET,
           TOOL_LIST_VAULTS,
           TOOL_CREATE_VAULT,
           TOOL_REQUEST_APPROVAL,
           TOOL_CHECK_APPROVAL,
           TOOL_PAY_AND_FETCH,
           TOOL_SHARE_SECRET])"

text \<open>
  \<open>getMcpToolDefinitions()\<close> returns \<open>ALL_TOOLS\<close>, the array itself and not a copy; it
  reads and writes nothing.
\<close>

definition getMcpToolDefinitions :: "heap \<Rightarrow> array_ref \<times> heap" where
  "getMcpToolDefinitions h = (ALL_TOOLS, h)"

text \<open>
  What a caller may do with the array it was handed: JavaScript's \<open>Array.prototype.push\<close>,
  which appends the element in place and returns the new length.
\<close>

definition array_push :: "array_ref \<Rightarrow> McpToolDefinition \<Rightarrow> heap \<Rightarrow> nat \<times> heap" where
  "array_push r x h = (length (h r) + 1, h(r := h r @ [x]))"

text \<open>
  \<open>n\<close> calls of \<open>getMcpToolDefinitions()\<close> one after the other, nothing else touching
  the heap between them: the contents each call's result has when it is returned, and the
  heap after the last call.
\<close>

primrec repeated_calls :: "nat \<Rightarrow> heap \<Rightarrow> McpToolDefinition list list \<times> heap" where
  "repeated_calls 0 h = ([], h)"
| "repeated_calls (Suc n) h =
     (case getMcpToolDefinitions h of
        (r, h') \<Rightarrow>
          (case repeated_calls n h' of
             (seen, h'') \<Rightarrow> (h' r # seen, h'')))"

text \<open>
  One caller pushes \<open>x\<close> onto the array it got from a first call, and a second call
  follows: the contents of the array the second call returns.
\<close>

definition second_call_after_push :: "McpToolDefinition \<Rightarrow> heap \<Rightarrow> McpToolDefinition list" where
  "second_call_after_push x h =
     (case getMcpToolDefinitions h of
        (r, h1) \<Rightarrow>
          (case array_push r x h1 of
             (len, h2) \<Rightarrow>
               (case getMcpToolDefinitions h2 of
                  (r', h3) \<Rightarrow> h3 r')))"

subsection \<open>Reading an input schema\<close>

text \<open>The value stored under a key of a JSON object (\<open>None\<close> for any other value).\<close>

fun json_member :: "string \<Rightarrow> json \<Rightarrow> json option" where
  "json_member k (JObject kvs) = map_of kvs k"
| "json_member k _ = None"

text \<open>The keys of the schema's \<open>properties\<close> object.\<close>

definition schema_property_keys :: "json \<Rightarrow> string list" where
  "schema_property_keys s =
     (case json_member ''properties'' s of
        Some (JObject kvs) \<Rightarrow> map fst kvs
      | _ \<Rightarrow> [])"

text \<open>The entries of the schema's \<open>required\<close> array.\<close>

definition schema_required :: "json \<Rightarrow> json list" where
  "schema_required s =
     (case json_member ''required'' s of
        Some (JArray xs) \<Rightarrow> xs
      | _ \<Rightarrow> [])"

text \<open>
  A tool definition is well formed when its schema has a \<open>properties\<close> object and a
  \<open>required\<close> array, and every entry of \<open>required\<close> is a string that is a key of
  \<open>properties\<close>.
\<close>

fun is_JObject :: "json \<Rightarrow> bool" where
  "is_JObject (JObject kvs) = True"
| "is_JObject _ = False"

fun is_JArray :: "json \<Rightarrow> bool" where
  "is_JArray (JArray xs) = True"
| "is_JArray _ = False"

fun required_entry_ok :: "string list \<Rightarrow> json \<Rightarrow> bool" where
  "required_entry_ok keys (JString k) = (k \<in> set keys)"
| "required_entry_ok keys _ = False"

definition required_within_properties :: "McpToolDefinition \<Rightarrow> bool" where
  "required_within_properties t =
     (let s = inputSchema t in
      (case json_member ''properties'' s of Some p \<Rightarrow> is_JObject p | None \<Rightarrow> False) \<and>
      (case json_member ''required'' s of Some r \<Rightarrow> is_JArray r | None \<Rightarrow> False) \<and>
      list_all (required_entry_ok (schema_property_keys s)) (schema_required s))"


section \<open>Payment negotiation (specification, sections 4.3 and 4.4)\<close>

text \<open>
  The request pipeline and its payment negotiator live in the client's \<open>./http\<close> module,
  which the resource proxies import and which is not part of the sources verified here; only
  the types they exchange (\<open>PaymentAccept\<close>, \<open>PaymentRequirement\<close>, \<open>PaymentPayload\<close>,
  \<open>X402Signer\<close>) are declared in types.ts. The definitions of this section follow the
  specification's description of that module instead.
\<close>

text \<open>
  Modelled from the spec: the auto-pay policy "configured on the client" that \<open>negotiate\<close>
  receives (the negotiator itself is missing from the sources): the \<open>maxAutoPayUsd\<close> bound
  and the client's configured network. The bound is a JavaScript number in
  \<open>OneclawClientConfig\<close>; it is a rational here.
\<close>

record AutoPayPolicy =
  maxAutoPayUsd :: rat
  configuredNetwork :: string

text \<open>
  Modelled from the spec: the policy of a client constructed without \<open>maxAutoPayUsd\<close> and
  without \<open>network\<close> (client construction is missing from the sources): "default 0", and
  the default network that the comment in \<open>OneclawClientConfig\<close> names.
\<close>

definition default_policy :: AutoPayPolicy where
  "default_policy = \<lparr>maxAutoPayUsd = 0, configuredNetwork = ''eip155:8453''\<rparr>"

text \<open>
  Modelled from the spec: the detail a \<open>PaymentRequired\<close> error carries besides the
  requirement (the error classes are missing from the sources): "unsupported network",
  the policy check, "a signer-failure detail", and the second 402 "after a completed payment
  attempt".
\<close>

datatype payment_detail =
    UnsupportedNetwork
  | PolicyRejected
  | SignerFailed
  | PaymentAlreadyAttempted

text \<open>
  Modelled from the spec: the closed error taxonomy of section 3 (the error classes are
  missing from the sources).
\<close>

datatype ClassifiedError =
    Auth
  | PaymentRequired PaymentRequirement payment_detail
  | ApprovalRequired
  | NotFound
  | RateLimit "int option"
  | Validation string
  | Server
  | Network string

text \<open>
  Modelled from the spec: the \<open>ResponseEnvelope\<close> of section 3,
  \<open>{ data, error, meta }\<close> with a classified error (the pipeline that builds it is
  missing from the sources).
\<close>

record 'd ResponseEnvelope =
  data :: "'d option"
  error :: "ClassifiedError option"
  meta :: "ResponseMeta option"

text \<open>
  Modelled from the spec: "Parse price as a decimal USD amount" (the parser is missing
  from the sources). A decimal amount is a non-empty run of digits, optionally followed by
  a point and a non-empty run of digits; any other string has no amount. First, the value
  of one digit character.
\<close>

definition digit_of :: "char \<Rightarrow> nat option" where
  "digit_of c =
     (let n = (of_char c :: nat) in if 48 \<le> n \<and> n \<le> 57 then Some (n - 48) else None)"

text \<open>
  Modelled from the spec: the value of a run of decimal digits, most significant first,
  continuing from \<open>acc\<close> (part of the missing price parser); \<open>None\<close> when a
  character is no digit.
\<close>

primrec nat_of_digits :: "nat \<Rightarrow> string \<Rightarrow> nat option" where
  "nat_of_digits acc [] = Some acc"
| "nat_of_digits acc (c # cs) =
     (case digit_of c of
        None \<Rightarrow> None
      | Some d \<Rightarrow> nat_of_digits (10 * acc + d) cs)"

text \<open>
  Modelled from the spec: the amount of a price string (the missing price parser): the
  digits before the point, plus the digits after it divided by the matching power of ten.
\<close>

definition parse_usd :: "string \<Rightarrow> rat option" where
  "parse_usd s =
     (let whole = takeWhile (\<lambda>c. c \<noteq> CHR ''.'') s;
          rest = dropWhile (\<lambda>c. c \<noteq> CHR ''.'') s
      in if whole = [] then None
         else (case nat_of_digits 0 whole of
                 None \<Rightarrow> None
               | Some w \<Rightarrow>
                  (case rest of
                     [] \<Rightarrow> Some (of_nat w)
                   | point # decimals \<Rightarrow>
                      if decimals = [] then None
                      else (case nat_of_digits 0 decimals of
                              None \<Rightarrow> None
                            | Some f \<Rightarrow>
                                Some (of_nat w + of_nat f / 10 ^ length decimals)))))"

text \<open>
  Modelled from the spec: section 4.4, step 1 (the negotiator is missing from the sources):
  "Select the first PaymentOffer in requirement.accepts whose network matches the client's
  configured network".
\<close>

definition select_offer :: "AutoPayPolicy \<Rightarrow> PaymentRequirement \<Rightarrow> PaymentAccept option" where
  "select_offer policy requirement =
     List.find (\<lambda>offer. PaymentAccept.network offer = configuredNetwork policy)
       (accepts requirement)"

text \<open>
  Modelled from the spec: section 4.4, step 4 (the negotiator is missing from the sources):
  the payload built from the requirement, the chosen offer and the signature.
\<close>

definition build_payload :: "PaymentRequirement \<Rightarrow> PaymentAccept \<Rightarrow> string \<Rightarrow> PaymentPayload" where
  "build_payload requirement offer signature =
     \<lparr>PaymentPayload.x402Version = PaymentRequirement.x402Version requirement,
      scheme = PaymentAccept.scheme offer,
      network = PaymentAccept.network offer,
      payload = signature\<rparr>"

text \<open>
  Modelled from the spec: section 4.4, steps 2 to 4, for the offer that step 1 chose (the
  negotiator is missing from the sources). The list \<open>signed\<close> holds the offers on which
  \<open>signPayment\<close> has been invoked so far; an invocation appends its offer. The policy
  check comes first: a price above \<open>maxAutoPayUsd\<close> fails with \<open>PaymentRequired\<close> and
  leaves the list as it is. The specification does not say what a price that is no decimal
  amount does; it is rejected here like a price above the bound, without signing.
\<close>

definition negotiate_offer ::
  "AutoPayPolicy \<Rightarrow> X402Signer \<Rightarrow> PaymentRequirement \<Rightarrow> PaymentAccept \<Rightarrow> PaymentAccept list
     \<Rightarrow> (ClassifiedError + PaymentPayload) \<times> PaymentAccept list" where
  "negotiate_offer policy signer requirement offer signed =
     (case parse_usd (price offer) of
        None \<Rightarrow> (Inl (PaymentRequired requirement PolicyRejected), signed)
      | Some amount \<Rightarrow>
          if amount > maxAutoPayUsd policy
          then (Inl (PaymentRequired requirement PolicyRejected), signed)
          else (case signPayment signer offer of
                  None \<Rightarrow> (Inl (PaymentRequired requirement SignerFailed), signed @ [offer])
                | Some signature \<Rightarrow>
                    (Inr (build_payload requirement offer signature), signed @ [offer])))"

text \<open>
  Modelled from the spec: \<open>negotiate(requirement, policy, signer)\<close> of section 4.4 (the
  negotiator is missing from the sources): step 1, then steps 2 to 4 on the selected offer;
  "if none matches, fail with PaymentRequired (unsupported network) without invoking the
  signer".
\<close>

definition negotiate ::
  "AutoPayPolicy \<Rightarrow> X402Signer \<Rightarrow> PaymentRequirement \<Rightarrow> PaymentAccept list
     \<Rightarrow> (ClassifiedError + PaymentPayload) \<times> PaymentAccept list" where
  "negotiate policy signer requirement signed =
     (case select_offer policy requirement of
        None \<Rightarrow> (Inl (PaymentRequired requirement UnsupportedNetwork), signed)
      | Some offer \<Rightarrow> negotiate_offer policy signer requirement offer signed)"

text \<open>
  Modelled from the spec: a terminal error envelope, \<open>data\<close> null and \<open>error\<close> set (the
  pipeline is missing from the sources).
\<close>

definition error_envelope :: "ClassifiedError \<Rightarrow> ResponseMeta \<Rightarrow> 'd ResponseEnvelope" where
  "error_envelope err m = \<lparr>data = None, error = Some err, meta = Some m\<rparr>"

text \<open>
  Modelled from the spec: section 4.3, step 6, the pipeline's reaction to a 402 response
  whose body is \<open>requirement\<close> (the pipeline is missing from the sources). \<open>attempted\<close>
  says whether this call has already completed a payment attempt: then the 402 "terminates
  with PaymentRequired error carrying the latest requirement". Otherwise the pipeline
  negotiates; a failed negotiation is the call's terminal error, and a payload is handed to
  \<open>resend\<close>, the rest of the pipeline (the single retried request and what follows it),
  which is a parameter here.
\<close>

definition on_payment_required ::
  "AutoPayPolicy \<Rightarrow> X402Signer \<Rightarrow>
     (PaymentPayload \<Rightarrow> PaymentAccept list \<Rightarrow> 'd ResponseEnvelope \<times> PaymentAccept list) \<Rightarrow>
     bool \<Rightarrow> PaymentRequirement \<Rightarrow> ResponseMeta \<Rightarrow> PaymentAccept list
     \<Rightarrow> 'd ResponseEnvelope \<times> PaymentAccept list" where
  "on_payment_required policy signer resend attempted requirement m signed =
     (if attempted
      then (error_envelope (PaymentRequired requirement PaymentAlreadyAttempted) m, signed)
      else (case negotiate policy signer requirement signed of
              (Inl err, signed') \<Rightarrow> (error_envelope err m, signed')
            | (Inr payment, signed') \<Rightarrow> resend payment signed'))"

section \<open>Example data\<close>

text \<open>
  A requirement with three offers, one on another network and two on the default network,
  a requirement with no offer on the default network, a signer that always signs, and the
  rest of a pipeline that answers the paid request with a 200.
\<close>

definition offer_mainnet :: PaymentAccept where
  "offer_mainnet = \<lparr>PaymentAccept.scheme = ''exact'', network = ''eip155:1'', payTo = ''0xA1'',
     price = ''0.01'', requiredDeadlineSeconds = 60\<rparr>"

definition offer_base :: PaymentAccept where
  "offer_base = \<lparr>PaymentAccept.scheme = ''exact'', network = ''eip155:8453'', payTo = ''0xB2'',
     price = ''0.01'', requiredDeadlineSeconds = 60\<rparr>"

definition offer_base_upto :: PaymentAccept where
  "offer_base_upto = \<lparr>PaymentAccept.scheme = ''upto'', network = ''eip155:8453'', payTo = ''0xC3'',
     price = ''0.02'', requiredDeadlineSeconds = 60\<rparr>"

definition requirement_three :: PaymentRequirement where
  "requirement_three = \<lparr>PaymentRequirement.x402Version = 1,
     accepts = [offer_mainnet, offer_base, offer_base_upto], description = ''vault read''\<rparr>"

definition requirement_mainnet_only :: PaymentRequirement where
  "requirement_mainnet_only = \<lparr>PaymentRequirement.x402Version = 1,
     accepts = [offer_mainnet], description = ''vault read''\<rparr>"

definition fixed_signer :: X402Signer where
  "fixed_signer = \<lparr>getAddress = Some ''0xW'', signPayment = (\<lambda>offer. Some ''0xSIG'')\<rparr>"

definition resend_success ::
  "PaymentPayload \<Rightarrow> PaymentAccept list \<Rightarrow> json ResponseEnvelope \<times> PaymentAccept list" where
  "resend_success payment signed =
     (\<lparr>data = Some (JObject []), error = None, meta = Some \<lparr>status = 200, requestId = None\<rparr>\<rparr>,
      signed)"

definition meta_402 :: ResponseMeta where
  "meta_402 = \<lparr>status = 402, requestId = None\<rparr>"

definition policy_one_dollar :: AutoPayPolicy where
  "policy_one_dollar = \<lparr>maxAutoPayUsd = 1, configuredNetwork = ''eip155:8453''\<rparr>"

section \<open>Properties of the resource proxies\<close>

lemma recording_single_call:
  "recording http m p opts (s, calls) = outcome_of_single_call http (m, p, opts) s calls"
  by (simp add: recording_def outcome_of_single_call_def split: prod.splits)

text \<open>
  Claim C9. Every method of \<open>AgentsResource\<close> and of \<open>SharingResource\<close> makes exactly
  one call of the client's \<open>request\<close>, with a method that is fixed and a path that is fixed
  up to the identifier interpolated into it, and hands back what that call yields (the
  envelope, or the fault it raised) unchanged. This holds for every behaviour \<open>http\<close> of
  the client, every state and every earlier log: the proxies add no call, and hence no
  retry, authentication or payment step, of their own.
\<close>

theorem resource_proxies_single_request:
  "AgentsResource_create (recording http) createOptions (s, calls) =
     outcome_of_single_call http
       (''POST'', ''/v1/agents'', Some \<lparr>body = Some (CreateAgentBody createOptions)\<rparr>) s calls
   \<and> AgentsResource_get (recording http) agentId (s, calls) =
     outcome_of_single_call http (''GET'', ''/v1/agents/'' @ agentId, None) s calls
   \<and> AgentsResource_list (recording http) (s, calls) =
     outcome_of_single_call http (''GET'', ''/v1/agents'', None) s calls
   \<and> AgentsResource_update (recording http) agentId update (s, calls) =
     outcome_of_single_call http
       (''PATCH'', ''/v1/agents/'' @ agentId, Some \<lparr>body = Some (UpdateAgentBody update)\<rparr>) s calls
   \<and> AgentsResource_delete (recording http) agentId (s, calls) =
     outcome_of_single_call http (''DELETE'', ''/v1/agents/'' @ agentId, None) s calls
   \<and> AgentsResource_rotateKey (recording http) agentId (s, calls) =
     outcome_of_single_call http
       (''POST'', ''/v1/agents/'' @ agentId @ ''/rotate-key'', None) s calls
   \<and> SharingResource_create (recording http) secretId shareOptions (s, calls) =
     outcome_of_single_call http
       (''POST'', ''/v1/secrets/'' @ secretId @ ''/share'',
        Some \<lparr>body = Some (CreateShareBody shareOptions)\<rparr>) s calls
   \<and> SharingResource_access (recording http) shareId (s, calls) =
     outcome_of_single_call http (''GET'', ''/v1/share/'' @ shareId, None) s calls
   \<and> SharingResource_revoke (recording http) shareId (s, calls) =
     outcome_of_single_call http (''DELETE'', ''/v1/share/'' @ shareId, None) s calls"
  unfolding AgentsResource_create_def AgentsResource_get_def AgentsResource_list_def
    AgentsResource_update_def AgentsResource_delete_def AgentsResource_rotateKey_def
    SharingResource_create_def SharingResource_access_def SharingResource_revoke_def
  by (simp only: recording_single_call simp_thms)

section \<open>Properties of the MCP tool definitions\<close>

lemmas tool_defs =
  TOOL_GET_SECRET_def TOOL_SET_SECRET_def TOOL_LIST_SECRET_KEYS_def TOOL_DELETE_SECRET_def
  TOOL_LIST_VAULTS_def TOOL_CREATE_VAULT_def TOOL_REQUEST_APPROVAL_def TOOL_CHECK_APPROVAL_def
  TOOL_PAY_AND_FETCH_def TOOL_SHARE_SECRET_def

lemma module_heap_names:
  "map name (module_heap ALL_TOOLS) =
     [''1claw_get_secret'', ''1claw_set_secret'', ''1claw_list_secret_keys'',
      ''1claw_delete_secret'', ''1claw_list_vaults'', ''1claw_create_vault'',
      ''1claw_request_approval'', ''1claw_check_approval_status'', ''1claw_pay_and_fetch'',
      ''1claw_share_secret'']"
  by (simp add: module_heap_def tool_defs)

lemma module_heap_distinct_names: "distinct (map name (module_heap ALL_TOOLS))"
  unfolding module_heap_names by simp

lemma module_heap_required_within_properties:
  "list_all required_within_properties (module_heap ALL_TOOLS)"
  by (simp add: module_heap_def tool_defs required_within_properties_def object_schema_def
      schema_property_keys_def schema_required_def)

lemma repeated_calls_unchanged:
  "repeated_calls n h = (replicate n (h ALL_TOOLS), h)"
  by (induction n arbitrary: h) (simp_all add: getMcpToolDefinitions_def)

text \<open>
  Claim C10, as it fails. The array that \<open>getMcpToolDefinitions()\<close> returns is the
  module's own: after a caller has pushed \<open>TOOL_GET_SECRET\<close> onto the result of a first
  call, a second call returns eleven definitions, two of them with the same name, and not
  the list the first call returned.
\<close>

theorem getMcpToolDefinitions_after_push_counterexample:
  "length (second_call_after_push TOOL_GET_SECRET module_heap) = 11
   \<and> \<not> distinct (map name (second_call_after_push TOOL_GET_SECRET module_heap))
   \<and> second_call_after_push TOOL_GET_SECRET module_heap \<noteq> module_heap ALL_TOOLS"
proof -
  have pushed: "second_call_after_push TOOL_GET_SECRET module_heap =
      module_heap ALL_TOOLS @ [TOOL_GET_SECRET]"
    by (simp add: second_call_after_push_def getMcpToolDefinitions_def array_push_def)
  have first: "TOOL_GET_SECRET \<in> set (module_heap ALL_TOOLS)"
    by (simp add: module_heap_def)
  have len: "length (module_heap ALL_TOOLS) = 10"
    by (simp add: module_heap_def)
  from first have "\<not> distinct (map name (module_heap ALL_TOOLS @ [TOOL_GET_SECRET]))"
    by (simp add: image_iff) blast
  with len show ?thesis
    unfolding pushed by simp
qed

text \<open>
  Claim C10, amended. A call of \<open>getMcpToolDefinitions()\<close> returns the array
  \<open>ALL_TOOLS\<close> and writes nothing, whatever the heap. On the module as evaluated, as long
  as no caller writes to the array, every one of any number of calls returns the same ten
  definitions in the order of the source; their names are pairwise distinct; and in each
  of them every entry of the schema's \<open>required\<close> list is a key of its \<open>properties\<close>
  object.
\<close>

theorem getMcpToolDefinitions_unwritten_module:
  "getMcpToolDefinitions h = (ALL_TOOLS, h)
   \<and> repeated_calls n module_heap = (replicate n (module_heap ALL_TOOLS), module_heap)
   \<and> module_heap ALL_TOOLS =
       [TOOL_GET_SECRET, TOOL_SET_SECRET, TOOL_LIST_SECRET_KEYS, TOOL_DELETE_SECRET,
        TOOL_LIST_VAULTS, TOOL_CREATE_VAULT, TOOL_REQUEST_APPROVAL, TOOL_CHECK_APPROVAL,
        TOOL_PAY_AND_FETCH, TOOL_SHARE_SECRET]
   \<and> length (module_heap ALL_TOOLS) = 10
   \<and> map name (module_heap ALL_TOOLS) =
       [''1claw_get_secret'', ''1claw_set_secret'', ''1claw_list_secret_keys'',
        ''1claw_delete_secret'', ''1claw_list_vaults'', ''1claw_create_vault'',
        ''1claw_request_approval'', ''1claw_check_approval_status'', ''1claw_pay_and_fetch'',
        ''1claw_share_secret'']
   \<and> distinct (map name (module_heap ALL_TOOLS))
   \<and> list_all required_within_properties (module_heap ALL_TOOLS)"
proof -
  have ret: "getMcpToolDefinitions h = (ALL_TOOLS, h)"
    by (simp add: getMcpToolDefinitions_def)
  have ten: "module_heap ALL_TOOLS =
       [TOOL_GET_SECRET, TOOL_SET_SECRET, TOOL_LIST_SECRET_KEYS, TOOL_DELETE_SECRET,
        TOOL_LIST_VAULTS, TOOL_CREATE_VAULT, TOOL_REQUEST_APPROVAL, TOOL_CHECK_APPROVAL,
        TOOL_PAY_AND_FETCH, TOOL_SHARE_SECRET]"
    by (simp add: module_heap_def)
  have len: "length (module_heap ALL_TOOLS) = 10"
    by (simp add: ten)
  from ret repeated_calls_unchanged [of n module_heap] ten len module_heap_names
    module_heap_distinct_names module_heap_required_within_properties
  show ?thesis
    by (simp only: simp_thms)
qed

section \<open>Properties of the payment negotiation\<close>

lemma find_first_match:
  "\<forall>x \<in> set before. \<not> P x \<Longrightarrow> P y \<Longrightarrow> List.find P (before @ y # rest) = Some y"
  by (induction before) auto

lemma select_offer_first:
  assumes "accepts requirement = before @ offer # rest"
      and "\<forall>off \<in> set before. PaymentAccept.network off \<noteq> configuredNetwork policy"
      and "PaymentAccept.network offer = configuredNetwork policy"
  shows "select_offer policy requirement = Some offer"
  using assms by (simp add: select_offer_def find_first_match)

lemma select_offer_none:
  "(\<forall>off \<in> set (accepts requirement). PaymentAccept.network off \<noteq> configuredNetwork policy)
   \<Longrightarrow> select_offer policy requirement = None"
  by (simp add: select_offer_def find_None_iff)

text \<open>
  Claim C7. When the offers before \<open>offer\<close> in \<open>requirement.accepts\<close> are all on
  another network and \<open>offer\<close> is on the client's configured network, \<open>offer\<close> is the
  one selected and the negotiation is the one carried out on it. When no offer of the list
  is on the configured network, nothing is selected, the negotiation fails with
  \<open>PaymentRequired\<close> (unsupported network), the call ends with that error, and the list
  of signer invocations is as it was: the signer has not been invoked.
\<close>

theorem negotiate_first_matching_offer:
  "(accepts requirement = before @ offer # rest
      \<and> (\<forall>off \<in> set before. PaymentAccept.network off \<noteq> configuredNetwork policy)
      \<and> PaymentAccept.network offer = configuredNetwork policy
    \<longrightarrow> select_offer policy requirement = Some offer
      \<and> negotiate policy signer requirement signed =
          negotiate_offer policy signer requirement offer signed)
   \<and> ((\<forall>off \<in> set (accepts unmatched). PaymentAccept.network off \<noteq> configuredNetwork policy)
    \<longrightarrow> select_offer policy unmatched = None
      \<and> negotiate policy signer unmatched signed =
          (Inl (PaymentRequired unmatched UnsupportedNetwork), signed)
      \<and> on_payment_required policy signer resend False unmatched m signed =
          (error_envelope (PaymentRequired unmatched UnsupportedNetwork) m, signed))"
proof (intro conjI impI)
  assume h: "accepts requirement = before @ offer # rest
      \<and> (\<forall>off \<in> set before. PaymentAccept.network off \<noteq> configuredNetwork policy)
      \<and> PaymentAccept.network offer = configuredNetwork policy"
  then show sel: "select_offer policy requirement = Some offer"
    by (simp add: select_offer_first)
  then show "negotiate policy signer requirement signed =
          negotiate_offer policy signer requirement offer signed"
    by (simp add: negotiate_def)
next
  assume h: "\<forall>off \<in> set (accepts unmatched). PaymentAccept.network off \<noteq> configuredNetwork policy"
  then show sel: "select_offer policy unmatched = None"
    by (rule select_offer_none)
  then show neg: "negotiate policy signer unmatched signed =
          (Inl (PaymentRequired unmatched UnsupportedNetwork), signed)"
    by (simp add: negotiate_def)
  then show "on_payment_required policy signer resend False unmatched m signed =
          (error_envelope (PaymentRequired unmatched UnsupportedNetwork) m, signed)"
    by (simp add: on_payment_required_def)
qed

lemmas example_defs =
  offer_mainnet_def offer_base_def offer_base_upto_def requirement_three_def
  requirement_mainnet_only_def fixed_signer_def meta_402_def default_policy_def

text \<open>
  Both cases of C7 on the example data: the second of three offers is selected, and a
  requirement with a single offer on another network is refused without signing.
\<close>

theorem negotiate_first_matching_offer_witness:
  "accepts requirement_three = [offer_mainnet] @ offer_base # [offer_base_upto]
   \<and> PaymentAccept.network offer_mainnet \<noteq> configuredNetwork default_policy
   \<and> PaymentAccept.network offer_base = configuredNetwork default_policy
   \<and> PaymentAccept.network offer_base_upto = configuredNetwork default_policy
   \<and> select_offer default_policy requirement_three = Some offer_base
   \<and> negotiate default_policy fixed_signer requirement_three [] =
       negotiate_offer default_policy fixed_signer requirement_three offer_base []
   \<and> select_offer default_policy requirement_mainnet_only = None
   \<and> negotiate default_policy fixed_signer requirement_mainnet_only [] =
       (Inl (PaymentRequired requirement_mainnet_only UnsupportedNetwork), [])
   \<and> on_payment_required default_policy fixed_signer resend_success False requirement_mainnet_only
         meta_402 [] =
       (error_envelope (PaymentRequired requirement_mainnet_only UnsupportedNetwork) meta_402, [])"
proof -
  have h1: "accepts requirement_three = [offer_mainnet] @ offer_base # [offer_base_upto]
      \<and> (\<forall>off \<in> set [offer_mainnet]. PaymentAccept.network off \<noteq> configuredNetwork default_policy)
      \<and> PaymentAccept.network offer_base = configuredNetwork default_policy"
    by (simp add: example_defs)
  have h2: "\<forall>off \<in> set (accepts requirement_mainnet_only).
      PaymentAccept.network off \<noteq> configuredNetwork default_policy"
    by (simp add: example_defs)
  have h3: "PaymentAccept.network offer_base_upto = configuredNetwork default_policy"
    by (simp add: example_defs)
  show ?thesis
    using h1 h2 h3
      negotiate_first_matching_offer [where requirement = requirement_three
        and before = "[offer_mainnet]" and offer = offer_base and rest = "[offer_base_upto]"
        and policy = default_policy and unmatched = requirement_mainnet_only
        and signer = fixed_signer and signed = "[]" and resend = resend_success and m = meta_402]
    by simp
qed


lemma negotiate_offer_signed:
  "snd (negotiate_offer policy signer requirement offer signed) = signed
   \<or> snd (negotiate_offer policy signer requirement offer signed) = signed @ [offer]"
  by (simp add: negotiate_offer_def split: option.splits)

text \<open>
  Claim C2. When the price of the selected offer parses to an amount above
  \<open>maxAutoPayUsd\<close>, the negotiation fails with \<open>PaymentRequired\<close> and the list of
  signer invocations is as it was; the call ends with a \<open>PaymentRequired\<close> error
  envelope, on a first 402 and on a 402 that follows a payment attempt alike. Conversely,
  whenever a negotiation has invoked the signer, it did so once, on the selected offer, and
  the price of that offer had parsed to an amount within the bound: the policy check comes
  before any signing.
\<close>

theorem policy_check_precedes_signing:
  "(select_offer policy requirement = Some offer
      \<and> parse_usd (price offer) = Some amount
      \<and> amount > maxAutoPayUsd policy
    \<longrightarrow> negotiate policy signer requirement signed =
          (Inl (PaymentRequired requirement PolicyRejected), signed)
      \<and> on_payment_required policy signer resend False requirement m signed =
          (error_envelope (PaymentRequired requirement PolicyRejected) m, signed)
      \<and> on_payment_required policy signer resend True requirement m signed =
          (error_envelope (PaymentRequired requirement PaymentAlreadyAttempted) m, signed))
   \<and> (snd (negotiate policy signer paid signed) \<noteq> signed
    \<longrightarrow> (\<exists>chosen cost.
          select_offer policy paid = Some chosen
          \<and> parse_usd (price chosen) = Some cost
          \<and> cost \<le> maxAutoPayUsd policy
          \<and> snd (negotiate policy signer paid signed) = signed @ [chosen]))"
proof (intro conjI impI)
  assume h: "select_offer policy requirement = Some offer
      \<and> parse_usd (price offer) = Some amount
      \<and> amount > maxAutoPayUsd policy"
  then show neg: "negotiate policy signer requirement signed =
          (Inl (PaymentRequired requirement PolicyRejected), signed)"
    by (simp add: negotiate_def negotiate_offer_def)
  then show "on_payment_required policy signer resend False requirement m signed =
          (error_envelope (PaymentRequired requirement PolicyRejected) m, signed)"
    by (simp add: on_payment_required_def)
  show "on_payment_required policy signer resend True requirement m signed =
          (error_envelope (PaymentRequired requirement PaymentAlreadyAttempted) m, signed)"
    by (simp add: on_payment_required_def)
next
  assume invoked: "snd (negotiate policy signer paid signed) \<noteq> signed"
  then obtain chosen where sel: "select_offer policy paid = Some chosen"
    by (cases "select_offer policy paid") (auto simp: negotiate_def)
  with invoked have off: "snd (negotiate_offer policy signer paid chosen signed) \<noteq> signed"
    by (simp add: negotiate_def)
  then obtain cost where cost: "parse_usd (price chosen) = Some cost"
    by (cases "parse_usd (price chosen)") (auto simp: negotiate_offer_def)
  with off have le: "cost \<le> maxAutoPayUsd policy"
    by (auto simp: negotiate_offer_def split: if_splits)
  from off negotiate_offer_signed [of policy signer paid chosen signed]
  have "snd (negotiate_offer policy signer paid chosen signed) = signed @ [chosen]"
    by blast
  with sel have "snd (negotiate policy signer paid signed) = signed @ [chosen]"
    by (simp add: negotiate_def)
  with sel cost le show "\<exists>chosen cost.
          select_offer policy paid = Some chosen
          \<and> parse_usd (price chosen) = Some cost
          \<and> cost \<le> maxAutoPayUsd policy
          \<and> snd (negotiate policy signer paid signed) = signed @ [chosen]"
    by blast
qed

lemma parse_usd_cent: "parse_usd ''0.01'' = Some (1 / 100)"
  by (simp add: parse_usd_def digit_of_def)

text \<open>
  C2 on the example data. Under the default policy (bound 0) the offer priced 0.01 is
  refused and nothing is signed; under a bound of one dollar the same requirement leads to
  one signature, on the selected offer.
\<close>

theorem policy_check_precedes_signing_witness:
  "select_offer default_policy requirement_three = Some offer_base
   \<and> parse_usd (price offer_base) = Some (1 / 100)
   \<and> 1 / 100 > maxAutoPayUsd default_policy
   \<and> negotiate default_policy fixed_signer requirement_three [] =
       (Inl (PaymentRequired requirement_three PolicyRejected), [])
   \<and> on_payment_required default_policy fixed_signer resend_success False requirement_three
         meta_402 [] =
       (error_envelope (PaymentRequired requirement_three PolicyRejected) meta_402, [])
   \<and> snd (negotiate policy_one_dollar fixed_signer requirement_three []) = [offer_base]
   \<and> select_offer policy_one_dollar requirement_three = Some offer_base
   \<and> 1 / 100 \<le> maxAutoPayUsd policy_one_dollar"
proof -
  have price: "parse_usd (price offer_base) = Some (1 / 100)"
    by (simp add: offer_base_def parse_usd_cent)
  have h1: "select_offer default_policy requirement_three = Some offer_base
      \<and> parse_usd (price offer_base) = Some (1 / 100)
      \<and> 1 / 100 > maxAutoPayUsd default_policy"
    using price by (simp add: select_offer_def example_defs)
  have sel: "select_offer policy_one_dollar requirement_three = Some offer_base"
    by (simp add: select_offer_def example_defs policy_one_dollar_def)
  have signed: "snd (negotiate policy_one_dollar fixed_signer requirement_three []) = [offer_base]"
    using price sel
    by (simp add: negotiate_def negotiate_offer_def policy_one_dollar_def fixed_signer_def)
  then have h2: "snd (negotiate policy_one_dollar fixed_signer requirement_three []) \<noteq> []"
    by simp
  have le: "1 / 100 \<le> maxAutoPayUsd policy_one_dollar"
    by (simp add: policy_one_dollar_def)
  show ?thesis
    using h1 h2 sel signed le
      policy_check_precedes_signing [where policy = default_policy
        and requirement = requirement_three and offer = offer_base and amount = "1 / 100"
        and signer = fixed_signer and signed = "[]" and resend = resend_success
        and m = meta_402 and paid = requirement_three]
      policy_check_precedes_signing [where policy = policy_one_dollar
        and requirement = requirement_three and offer = offer_base and amount = "1 / 100"
        and signer = fixed_signer and signed = "[]" and resend = resend_success
        and m = meta_402 and paid = requirement_three]
    by simp
qed

end
